theory Spec2Isabelle
  imports Main
begin

section \<open>EndNote XML to BibTeX: the conversion engine of \<^verbatim>\<open>xml_converter.py\<close>\<close>

text \<open>
  The engine is the class \<^verbatim>\<open>XML\<close>. Its state is two configuration flags and the list
  \<^verbatim>\<open>conversion_errors\<close>, which \<^verbatim>\<open>convert_to_bibtex\<close> resets at every call. The model
  passes the flags as a record and returns the error list next to the output text.
  What the code prints to standard output is not modelled.
\<close>

subsection \<open>Python values\<close>

text \<open>
  The text and the attribute values of an \<^verbatim>\<open>ElementTree\<close> element are strings or
  \<^verbatim>\<open>None\<close> when the tree comes from the parser. A caller that hands over an element
  it built itself can put other objects there. The model has four kinds of them, the
  built-in numbers and containers \<^verbatim>\<open>int\<close>, \<^verbatim>\<open>float\<close>, \<^verbatim>\<open>list\<close> and \<^verbatim>\<open>dict\<close>:
  none of them has a method \<^verbatim>\<open>strip\<close>, none is a string for \<^verbatim>\<open>str.join\<close>, the
  numbers can be hashed and the containers cannot. Such an object is given by its
  truth value, its type and the text \<^verbatim>\<open>str()\<close> gives for it. Objects of any other
  type, among them \<^verbatim>\<open>bytes\<close> and \<^verbatim>\<open>bytearray\<close>, which do have a \<^verbatim>\<open>strip\<close>, are not
  values of the model. Characters are the code points below 256.
\<close>

datatype pytype = PyInt | PyFloat | PyList | PyDict

fun type_name :: "pytype \<Rightarrow> string" where
  "type_name PyInt = ''int''"
| "type_name PyFloat = ''float''"
| "type_name PyList = ''list''"
| "type_name PyDict = ''dict''"

fun hashable :: "pytype \<Rightarrow> bool" where
  "hashable PyInt = True"
| "hashable PyFloat = True"
| "hashable PyList = False"
| "hashable PyDict = False"

datatype pyobj =
    PNone
  | PStr string
  | PObj (truth: bool) (ptype: pytype) (repr: string)

fun truthy :: "pyobj \<Rightarrow> bool" where
  "truthy PNone = False"
| "truthy (PStr s) = (s \<noteq> [])"
| "truthy (PObj t ty r) = t"

text \<open>What an f-string writes for a value.\<close>

fun py_str :: "pyobj \<Rightarrow> string" where
  "py_str PNone = ''None''"
| "py_str (PStr s) = s"
| "py_str (PObj t ty r) = r"

datatype exn = AttributeError string | TypeError string

fun str_exn :: "exn \<Rightarrow> string" where
  "str_exn (AttributeError m) = m"
| "str_exn (TypeError m) = m"

definition quoted :: "string \<Rightarrow> string" where
  "quoted s = [CHR 0x27] @ s @ [CHR 0x27]"

text \<open>\<^verbatim>\<open>str.isspace\<close> on one code point below 256.\<close>

definition py_isspace :: "char \<Rightarrow> bool" where
  "py_isspace c = ((of_char c :: nat) \<in> {9, 10, 11, 12, 13, 28, 29, 30, 31, 32, 133, 160})"

definition strip :: "string \<Rightarrow> string" where
  "strip s = rev (dropWhile py_isspace (rev (dropWhile py_isspace s)))"

text \<open>\<^verbatim>\<open>x.strip()\<close>: of the values of the model only a string has the method.\<close>

fun py_strip :: "pyobj \<Rightarrow> exn + string" where
  "py_strip (PStr s) = Inr (strip s)"
| "py_strip PNone =
     Inl (AttributeError (quoted ''NoneType'' @ '' object has no attribute '' @ quoted ''strip''))"
| "py_strip (PObj t ty r) =
     Inl (AttributeError
            (quoted (type_name ty) @ '' object has no attribute '' @ quoted ''strip''))"

text \<open>\<^verbatim>\<open>sep.join(items)\<close> on strings.\<close>

fun join :: "string \<Rightarrow> string list \<Rightarrow> string" where
  "join sep [] = []"
| "join sep [x] = x"
| "join sep (x # y # ys) = x @ sep @ join sep (y # ys)"

text \<open>Decimal digits of a natural number, as \<^verbatim>\<open>str(n)\<close> and an f-string write it.\<close>

function str_nat :: "nat \<Rightarrow> string" where
  "str_nat n =
     (if n < 10 then [''0123456789'' ! n]
      else str_nat (n div 10) @ [''0123456789'' ! (n mod 10)])"
  by pat_completeness auto
termination
  by (relation "measure id") auto

declare str_nat.simps [simp del]

text \<open>
  \<^verbatim>\<open>"".join(items)\<close> on a list that may hold a non-string: the first such item,
  at index \<open>i\<close>, raises \<^verbatim>\<open>TypeError\<close>.
\<close>

fun all_str :: "nat \<Rightarrow> pyobj list \<Rightarrow> exn + string list" where
  "all_str i [] = Inr []"
| "all_str i (PStr s # xs) =
     (case all_str (i + 1) xs of Inl e \<Rightarrow> Inl e | Inr ss \<Rightarrow> Inr (s # ss))"
| "all_str i (PNone # xs) =
     Inl (TypeError (''sequence item '' @ str_nat i @ '': expected str instance, NoneType found''))"
| "all_str i (PObj t ty r # xs) =
     Inl (TypeError (''sequence item '' @ str_nat i @ '': expected str instance, ''
                     @ type_name ty @ '' found''))"

definition py_join :: "string \<Rightarrow> pyobj list \<Rightarrow> exn + pyobj" where
  "py_join sep items =
     (case all_str 0 items of Inl e \<Rightarrow> Inl e | Inr ss \<Rightarrow> Inr (PStr (join sep ss)))"

subsection \<open>Elements and the paths the engine searches\<close>

datatype element =
  Element (tag: string) (attrib: "(string \<times> pyobj) list") (el_text: pyobj)
          (children: "element list")

text \<open>\<^verbatim>\<open>Element.iter()\<close>: the element and its descendants in document order.\<close>

fun iter :: "element \<Rightarrow> element list" where
  "iter (Element t a x cs) = Element t a x cs # concat (map iter cs)"

definition descendants :: "element \<Rightarrow> element list" where
  "descendants e = concat (map iter (children e))"

text \<open>
  Every path of the engine is \<^verbatim>\<open>.//t1/t2/.../tn\<close>, given here as the list of its tags:
  the descendants tagged \<open>t1\<close>, not the element itself, then at each further step the
  children with that tag, all in document order.
\<close>

definition select_child :: "string \<Rightarrow> element list \<Rightarrow> element list" where
  "select_child t result = concat (map (\<lambda>elem. filter (\<lambda>e. tag e = t) (children elem)) result)"

fun findall :: "element \<Rightarrow> string list \<Rightarrow> element list" where
  "findall elem [] = [elem]"
| "findall elem (t # ts) = foldl (\<lambda>result t'. select_child t' result)
                                 (filter (\<lambda>e. tag e = t) (descendants elem)) ts"

definition find_elem :: "element \<Rightarrow> string list \<Rightarrow> element option" where
  "find_elem elem path = (case findall elem path of [] \<Rightarrow> None | e # es \<Rightarrow> Some e)"

subsection \<open>The engine's configuration and tables\<close>

record config =
  suppress_warnings :: bool
  extract_styled_text :: bool

definition default_config :: config where
  "default_config = \<lparr>suppress_warnings = True, extract_styled_text = True\<rparr>"

definition entry_type_map :: "(string \<times> string) list" where
  "entry_type_map =
     [(''Journal Article'', ''article''),
      (''Book'', ''book''),
      (''Book Section'', ''incollection''),
      (''Conference Paper'', ''inproceedings''),
      (''Conference Proceedings'', ''proceedings''),
      (''Conference Proceeding'', ''proceedings''),
      (''Thesis'', ''phdthesis''),
      (''Report'', ''techreport''),
      (''Web Page'', ''online''),
      (''Patent'', ''patent''),
      (''Unpublished Work'', ''unpublished''),
      (''Manuscript'', ''unpublished''),
      (''Magazine Article'', ''article''),
      (''Newspaper Article'', ''article''),
      (''Electronic Article'', ''article''),
      (''Generic'', ''misc'')]"

text \<open>
  \<^verbatim>\<open>self.entry_type_map.get(entry_type_name, 'misc')\<close>. The keys are strings, so a
  value that is not a string finds none of them; one that cannot be hashed raises.
\<close>

fun entry_type_get :: "pyobj \<Rightarrow> exn + string" where
  "entry_type_get (PStr s) =
     Inr (case map_of entry_type_map s of Some t \<Rightarrow> t | None \<Rightarrow> ''misc'')"
| "entry_type_get PNone = Inr ''misc''"
| "entry_type_get (PObj t ty r) =
     (if hashable ty then Inr ''misc''
      else Inl (TypeError (''unhashable type: '' @ quoted (type_name ty))))"

definition required_fields_table :: "(string \<times> string list) list" where
  "required_fields_table =
     [(''article'', [''author'', ''title'', ''journal'', ''year'']),
      (''book'', [''author'', ''title'', ''publisher'', ''year'']),
      (''inbook'', [''author'', ''title'', ''publisher'', ''year'']),
      (''incollection'', [''author'', ''title'', ''booktitle'', ''publisher'', ''year'']),
      (''inproceedings'', [''author'', ''title'', ''booktitle'', ''year'']),
      (''proceedings'', [''title'', ''year'']),
      (''phdthesis'', [''author'', ''title'', ''school'', ''year'']),
      (''mastersthesis'', [''author'', ''title'', ''school'', ''year'']),
      (''techreport'', [''author'', ''title'', ''institution'', ''year'']),
      (''online'', [''title'', ''url'']),
      (''misc'', [''title'']),
      (''patent'', [''author'', ''title'', ''number'', ''year'']),
      (''unpublished'', [''author'', ''title'', ''note''])]"

definition get_required_fields :: "string \<Rightarrow> string list" where
  "get_required_fields entry_type =
     (case map_of required_fields_table entry_type of Some fs \<Rightarrow> fs | None \<Rightarrow> [])"

subsection \<open>Field extraction\<close>

text \<open>
  The FieldSet is a Python dict from field name to string: an association list in
  insertion order, where storing under a key that is there keeps the key's place.
\<close>

type_synonym fieldset = "(string \<times> string) list"

fun dict_set :: "string \<Rightarrow> string \<Rightarrow> fieldset \<Rightarrow> fieldset" where
  "dict_set k v [] = [(k, v)]"
| "dict_set k v ((k', v') # kvs) =
     (if k' = k then (k, v) # kvs else (k', v') # dict_set k v kvs)"

text \<open>\<^verbatim>\<open>x if x else ""\<close>\<close>

definition or_empty :: "pyobj \<Rightarrow> pyobj" where
  "or_empty x = (if truthy x then x else PStr [])"

definition extract_text_from_styled_element :: "config \<Rightarrow> element option \<Rightarrow> exn + pyobj" where
  "extract_text_from_styled_element cfg element =
     (case element of
        None \<Rightarrow> Inr (PStr [])
      | Some elem \<Rightarrow>
          if extract_styled_text cfg \<and> find_elem elem [''style''] \<noteq> None
          then py_join [] (map (\<lambda>style. or_empty (el_text style)) (findall elem [''style'']))
          else Inr (or_empty (el_text elem)))"

text \<open>
  One statement of the extraction pass either updates the dict or raises; the pass runs
  its statements in order and stops at the first exception.
\<close>

type_synonym stmt = "fieldset \<Rightarrow> exn + fieldset"

fun run_stmts :: "stmt list \<Rightarrow> stmt" where
  "run_stmts [] flds = Inr flds"
| "run_stmts (s # ss) flds =
     (case s flds of Inl e \<Rightarrow> Inl e | Inr flds' \<Rightarrow> run_stmts ss flds')"

text \<open>
  The block the pass repeats for a single-valued field:
  \<^verbatim>\<open>
  elem = record.find(path)
  if elem is not None:
      elem_text = self._extract_text_from_styled_element(elem)
      if elem_text:
          fields[name] = elem_text.strip()
  \<close>
\<close>

definition scalar_field :: "config \<Rightarrow> element \<Rightarrow> string list \<Rightarrow> string \<Rightarrow> stmt" where
  "scalar_field cfg record path name flds =
     (case find_elem record path of
        None \<Rightarrow> Inr flds
      | Some elem \<Rightarrow>
          (case extract_text_from_styled_element cfg (Some elem) of
             Inl e \<Rightarrow> Inl e
           | Inr elem_text \<Rightarrow>
               if truthy elem_text
               then (case py_strip elem_text of
                       Inl e \<Rightarrow> Inl e
                     | Inr s \<Rightarrow> Inr (dict_set name s flds))
               else Inr flds))"

text \<open>
  The loop over authors and the loop over keywords: the stripped text of every element
  whose extracted text is true, in order.
\<close>

fun collect_stripped :: "config \<Rightarrow> element list \<Rightarrow> exn + string list" where
  "collect_stripped cfg [] = Inr []"
| "collect_stripped cfg (elem # elems) =
     (case extract_text_from_styled_element cfg (Some elem) of
        Inl e \<Rightarrow> Inl e
      | Inr elem_text \<Rightarrow>
          if truthy elem_text
          then (case py_strip elem_text of
                  Inl e \<Rightarrow> Inl e
                | Inr s \<Rightarrow>
                    (case collect_stripped cfg elems of
                       Inl e \<Rightarrow> Inl e
                     | Inr names \<Rightarrow> Inr (s # names)))
          else collect_stripped cfg elems)"

definition authors_field :: "config \<Rightarrow> element \<Rightarrow> stmt" where
  "authors_field cfg record flds =
     (case find_elem record [''contributors'', ''authors''] of
        None \<Rightarrow> Inr flds
      | Some authors_elem \<Rightarrow>
          (case collect_stripped cfg (findall authors_elem [''author'']) of
             Inl e \<Rightarrow> Inl e
           | Inr author_names \<Rightarrow>
               if author_names \<noteq> []
               then Inr (dict_set ''author'' (join '' and '' author_names) flds)
               else Inr flds))"

text \<open>
  The venue: the secondary title goes to \<^verbatim>\<open>journal\<close> or \<^verbatim>\<open>booktitle\<close> by the
  \<^verbatim>\<open>name\<close> attribute of the record's \<^verbatim>\<open>ref-type\<close> element; the comparison with a
  value that is not a string is false. Without such an attribute nothing is stored,
  and the text is not stripped.
\<close>

definition secondary_title_field :: "config \<Rightarrow> element \<Rightarrow> stmt" where
  "secondary_title_field cfg record flds =
     (case find_elem record [''titles'', ''secondary-title''] of
        None \<Rightarrow> Inr flds
      | Some secondary_title \<Rightarrow>
          (case extract_text_from_styled_element cfg (Some secondary_title) of
             Inl e \<Rightarrow> Inl e
           | Inr secondary_text \<Rightarrow>
               if truthy secondary_text
               then (case find_elem record [''ref-type''] of
                       None \<Rightarrow> Inr flds
                     | Some ref_type_elem \<Rightarrow>
                         (case map_of (attrib ref_type_elem) ''name'' of
                            None \<Rightarrow> Inr flds
                          | Some name \<Rightarrow>
                              if name = PStr ''Journal Article''
                              then (case py_strip secondary_text of
                                      Inl e \<Rightarrow> Inl e
                                    | Inr s \<Rightarrow> Inr (dict_set ''journal'' s flds))
                              else (case py_strip secondary_text of
                                      Inl e \<Rightarrow> Inl e
                                    | Inr s \<Rightarrow> Inr (dict_set ''booktitle'' s flds))))
               else Inr flds))"

definition keywords_field :: "config \<Rightarrow> element \<Rightarrow> stmt" where
  "keywords_field cfg record flds =
     (let keywords_elem = findall record [''keywords'', ''keyword'']
      in if keywords_elem \<noteq> []
         then (case collect_stripped cfg keywords_elem of
                 Inl e \<Rightarrow> Inl e
               | Inr keywords \<Rightarrow>
                   if keywords \<noteq> []
                   then Inr (dict_set ''keywords'' (join '', '' keywords) flds)
                   else Inr flds)
         else Inr flds)"

text \<open>The body of the \<^verbatim>\<open>try\<close> of \<^verbatim>\<open>_extract_fields_from_xml\<close>, statement by statement.\<close>

definition extract_stmts :: "config \<Rightarrow> element \<Rightarrow> stmt list" where
  "extract_stmts cfg record =
     [scalar_field cfg record [''titles'', ''title''] ''title'',
      authors_field cfg record,
      scalar_field cfg record [''dates'', ''year''] ''year'',
      secondary_title_field cfg record,
      scalar_field cfg record [''volume''] ''volume'',
      scalar_field cfg record [''number''] ''number'',
      scalar_field cfg record [''pages''] ''pages'',
      scalar_field cfg record [''publisher''] ''publisher'',
      scalar_field cfg record [''urls'', ''related-urls'', ''url''] ''url'',
      scalar_field cfg record [''electronic-resource-num''] ''doi'',
      scalar_field cfg record [''abstract''] ''abstract'',
      keywords_field cfg record,
      scalar_field cfg record [''isbn''] ''isbn'']
     @ map (\<lambda>tag. scalar_field cfg record [tag] tag)
         [''edition'', ''address'', ''note'', ''month'', ''series'', ''chapter'']"

text \<open>
  \<^verbatim>\<open>_extract_fields_from_xml\<close>: the FieldSet, and the error list it leaves. An
  exception anywhere in the pass is caught here: the pass then returns the empty dict
  and appends one error.
\<close>

definition extract_fields_from_xml ::
  "config \<Rightarrow> element \<Rightarrow> string list \<Rightarrow> fieldset \<times> string list" where
  "extract_fields_from_xml cfg record conversion_errors =
     (case run_stmts (extract_stmts cfg record) [] of
        Inr flds \<Rightarrow> (flds, conversion_errors)
      | Inl e \<Rightarrow> ([], conversion_errors @ [''Error extracting fields: '' @ str_exn e]))"

subsection \<open>Formatting one entry\<close>

text \<open>The line \<^verbatim>\<open>f"\n\t{field} = {{{field_value}}},"\<close>\<close>

definition field_line :: "string \<Rightarrow> string \<Rightarrow> string" where
  "field_line field field_value =
     [CHR 0x0A, CHR 0x09] @ field @ '' = {'' @ field_value @ ''},''"

text \<open>
  The first loop of \<^verbatim>\<open>_format_fields\<close>, over the required fields, with its two
  accumulators \<^verbatim>\<open>formatted_fields\<close> and \<^verbatim>\<open>missing_fields\<close>.
\<close>

fun required_loop :: "fieldset \<Rightarrow> string list \<Rightarrow> string \<times> string list \<Rightarrow> string \<times> string list" where
  "required_loop flds [] acc = acc"
| "required_loop flds (field # rest) (formatted_fields, missing_fields) =
     (case map_of flds field of
        Some field_value \<Rightarrow>
          required_loop flds rest (formatted_fields @ field_line field field_value, missing_fields)
      | None \<Rightarrow> required_loop flds rest (formatted_fields, missing_fields @ [field]))"

text \<open>The second loop, over \<^verbatim>\<open>fields.items()\<close>.\<close>

fun flexible_loop :: "string list \<Rightarrow> fieldset \<Rightarrow> string \<Rightarrow> string" where
  "flexible_loop required_fields [] formatted_fields = formatted_fields"
| "flexible_loop required_fields ((field, field_value) # items) formatted_fields =
     (if field \<notin> set required_fields
      then flexible_loop required_fields items (formatted_fields @ field_line field field_value)
      else flexible_loop required_fields items formatted_fields)"

text \<open>
  \<^verbatim>\<open>_format_fields\<close>. The list of missing fields only feeds a printed warning,
  so the function returns the text alone, as the code does.
\<close>

definition format_fields :: "fieldset \<Rightarrow> string list \<Rightarrow> string" where
  "format_fields flds required_fields =
     (case required_loop flds required_fields ([], []) of
        (formatted_fields, missing_fields) \<Rightarrow> flexible_loop required_fields flds formatted_fields)"

subsection \<open>The conversion\<close>

text \<open>
  The reference-type label: the \<^verbatim>\<open>name\<close> attribute of the first \<^verbatim>\<open>ref-type\<close>
  descendant, else the record's own \<^verbatim>\<open>ref-type\<close> attribute, else \<^verbatim>\<open>Generic\<close>.
\<close>

definition record_ref_type :: "element \<Rightarrow> pyobj" where
  "record_ref_type record =
     (case map_of (attrib record) ''ref-type'' of Some v \<Rightarrow> v | None \<Rightarrow> PStr ''Generic'')"

definition entry_type_name :: "element \<Rightarrow> pyobj" where
  "entry_type_name record =
     (case find_elem record [''ref-type''] of
        None \<Rightarrow> record_ref_type record
      | Some ref_type_elem \<Rightarrow>
          (case map_of (attrib ref_type_elem) ''name'' of
             Some v \<Rightarrow> v
           | None \<Rightarrow> record_ref_type record))"

text \<open>
  \<^verbatim>\<open>key_elem.text if key_elem is not None and key_elem.text else
  f"ref{len(bibtex_entries) + 1}"\<close>, as the f-string of the header then writes it.
\<close>

definition entry_key :: "element \<Rightarrow> string list \<Rightarrow> string" where
  "entry_key record bibtex_entries =
     (case find_elem record [''rec-number''] of
        None \<Rightarrow> ''ref'' @ str_nat (length bibtex_entries + 1)
      | Some key_elem \<Rightarrow>
          if truthy (el_text key_elem) then py_str (el_text key_elem)
          else ''ref'' @ str_nat (length bibtex_entries + 1))"

text \<open>
  One turn of the loop over the records, on the state
  \<open>(bibtex_entries, conversion_errors)\<close>. In the body of the \<^verbatim>\<open>try\<close> only the
  lookup of the label can raise: the extraction pass catches its own exceptions.
  The handler appends one error and the loop goes on.
\<close>

definition process_record ::
  "config \<Rightarrow> nat \<Rightarrow> element \<Rightarrow> string list \<times> string list \<Rightarrow> string list \<times> string list" where
  "process_record cfg index record st =
     (case st of (bibtex_entries, conversion_errors) \<Rightarrow>
        (case entry_type_get (entry_type_name record) of
           Inl e \<Rightarrow>
             (bibtex_entries,
              conversion_errors @
                [''Error processing record '' @ str_nat (index + 1) @ '': '' @ str_exn e])
         | Inr entry_type \<Rightarrow>
             (case extract_fields_from_xml cfg record conversion_errors of
                (flds, conversion_errors') \<Rightarrow>
                  (bibtex_entries @
                     [''@'' @ entry_type @ ''{'' @ entry_key record bibtex_entries
                      @ format_fields flds (get_required_fields entry_type)
                      @ [CHR 0x0A] @ ''}''],
                   conversion_errors'))))"

fun convert_records ::
  "config \<Rightarrow> nat \<Rightarrow> element list \<Rightarrow> string list \<times> string list \<Rightarrow> string list \<times> string list" where
  "convert_records cfg index [] st = st"
| "convert_records cfg index (record # records) st =
     convert_records cfg (index + 1) records (process_record cfg index record st)"

text \<open>\<^verbatim>\<open>convert_to_bibtex\<close> from the root element on.\<close>

definition convert_root :: "config \<Rightarrow> element \<Rightarrow> string \<times> string list" where
  "convert_root cfg xml_root =
     (let records_path =
            (if find_elem xml_root [''records'', ''record''] \<noteq> None
             then [''records'', ''record''] else [''record'']);
          records = findall xml_root records_path
      in if records = [] then ([], [''No records found in XML data''])
         else (case convert_records cfg 0 records ([], []) of
                 (bibtex_entries, conversion_errors) \<Rightarrow>
                   if bibtex_entries = [] \<and> conversion_errors \<noteq> []
                   then ([], conversion_errors)
                   else (join [CHR 0x0A, CHR 0x0A] bibtex_entries, conversion_errors)))"

text \<open>
  The argument of \<^verbatim>\<open>convert_to_bibtex\<close> is a string, an element, or something
  else. \<^verbatim>\<open>ET.fromstring\<close> belongs to the standard library: it is a parameter, which
  gives the root element or the message of its \<^verbatim>\<open>ParseError\<close>. The result is the
  returned text and \<^verbatim>\<open>self.conversion_errors\<close> after the call.
\<close>

datatype xml_data = XmlStr string | XmlElement element | XmlOther

definition convert_to_bibtex ::
  "(string \<Rightarrow> string + element) \<Rightarrow> config \<Rightarrow> xml_data \<Rightarrow> string \<times> string list" where
  "convert_to_bibtex fromstring cfg data =
     (case data of
        XmlStr s \<Rightarrow>
          (case fromstring s of
             Inl e \<Rightarrow> ([], [''Error parsing XML: '' @ e])
           | Inr xml_root \<Rightarrow> convert_root cfg xml_root)
      | XmlElement xml_root \<Rightarrow> convert_root cfg xml_root
      | XmlOther \<Rightarrow> ([], [''Invalid XML data type'']))"

subsection \<open>The specification's wording, for comparison with the code\<close>

text \<open>
  The field lines as the specification describes them: a line
  \<^verbatim>\<open>\n\t<field> = {<value>},\<close> (a line feed, a tab, the name, the value in braces, a
  comma) for each required field that is present, in the order of the type's list,
  then such a line for every other field of the FieldSet in insertion order.
\<close>

definition spec_field_lines :: "fieldset \<Rightarrow> string list \<Rightarrow> string" where
  "spec_field_lines flds required_fields =
     concat (map (\<lambda>field. case map_of flds field of
                             Some v \<Rightarrow> [CHR 0x0A, CHR 0x09] @ field @ '' = {'' @ v @ ''},''
                           | None \<Rightarrow> []) required_fields)
     @ concat (map (\<lambda>(field, v). [CHR 0x0A, CHR 0x09] @ field @ '' = {'' @ v @ ''},'')
                 (filter (\<lambda>(field, v). field \<notin> set required_fields) flds))"

text \<open>
  The entry key as the specification describes it, from the number of entries
  produced so far: the text of \<^verbatim>\<open>rec-number\<close> when there is one, else \<^verbatim>\<open>ref<N>\<close>.
\<close>

definition spec_entry_key :: "element \<Rightarrow> nat \<Rightarrow> string" where
  "spec_entry_key record produced =
     (case find_elem record [''rec-number''] of
        None \<Rightarrow> ''ref'' @ str_nat (produced + 1)
      | Some key_elem \<Rightarrow>
          (case el_text key_elem of
             PNone \<Rightarrow> ''ref'' @ str_nat (produced + 1)
           | PStr s \<Rightarrow> if s = [] then ''ref'' @ str_nat (produced + 1) else s
           | PObj t ty r \<Rightarrow> if t then r else ''ref'' @ str_nat (produced + 1)))"

text \<open>
  A record reaches the handler of the record loop, and so produces no entry, exactly
  when the lookup of its label raises.
\<close>

definition reaches_handler :: "element \<Rightarrow> bool" where
  "reaches_handler record =
     (case entry_type_get (entry_type_name record) of Inl e \<Rightarrow> True | Inr t \<Rightarrow> False)"


text \<open>
  The texts of an element's \<^verbatim>\<open>style\<close> descendants, and the values a parsed document
  can hold as text: a string or \<^verbatim>\<open>None\<close>.
\<close>

definition style_texts :: "element \<Rightarrow> string list" where
  "style_texts elem =
     map (\<lambda>style. py_str (or_empty (el_text style))) (findall elem [''style''])"

definition is_text :: "pyobj \<Rightarrow> bool" where
  "is_text x = (case x of PObj t ty r \<Rightarrow> False | _ \<Rightarrow> True)"



text \<open>
  The single-valued fields with the paths the pass searches for them, and, for each
  statement of the pass in order, the keys it can store under.
\<close>

definition scalar_fields_table :: "(string list \<times> string) list" where
  "scalar_fields_table =
     [([''titles'', ''title''], ''title''),
      ([''dates'', ''year''], ''year''),
      ([''volume''], ''volume''),
      ([''number''], ''number''),
      ([''pages''], ''pages''),
      ([''publisher''], ''publisher''),
      ([''urls'', ''related-urls'', ''url''], ''url''),
      ([''electronic-resource-num''], ''doi''),
      ([''abstract''], ''abstract''),
      ([''isbn''], ''isbn''),
      ([''edition''], ''edition''),
      ([''address''], ''address''),
      ([''note''], ''note''),
      ([''month''], ''month''),
      ([''series''], ''series''),
      ([''chapter''], ''chapter'')]"

definition stmt_keys :: "string list list" where
  "stmt_keys =
     [[''title''], [''author''], [''year''], [''journal'', ''booktitle''], [''volume''],
      [''number''], [''pages''], [''publisher''], [''url''], [''doi''], [''abstract''],
      [''keywords''], [''isbn''], [''edition''], [''address''], [''note''], [''month''],
      [''series''], [''chapter'']]"

definition keeps :: "string \<Rightarrow> stmt \<Rightarrow> bool" where
  "keeps k s = (\<forall>flds flds'. s flds = Inr flds' \<longrightarrow> map_of flds' k = map_of flds k)"

definition writes_within :: "stmt \<Rightarrow> string list \<Rightarrow> bool" where
  "writes_within s ks = (\<forall>k. k \<notin> set ks \<longrightarrow> keeps k s)"

subsection \<open>Example documents\<close>

definition leaf :: "string \<Rightarrow> string \<Rightarrow> element" where
  "leaf t s = Element t [] (PStr s) []"

definition ex_doc :: "element list \<Rightarrow> element" where
  "ex_doc records = Element ''xml'' [] PNone [Element ''records'' [] PNone records]"

text \<open>A record with a title and nothing else: no key, no reference type.\<close>

definition ex_plain :: element where
  "ex_plain = Element ''record'' [] PNone [Element ''titles'' [] PNone [leaf ''title'' ''A'']]"

text \<open>A record whose \<^verbatim>\<open>ref-type\<close> attribute is an empty list, which cannot be hashed.\<close>

definition ex_unhashable :: element where
  "ex_unhashable =
     Element ''record'' [(''ref-type'', PObj False PyList ''[]'')] PNone
       [Element ''titles'' [] PNone [leaf ''title'' ''B'']]"

text \<open>A record whose title is three spaces.\<close>

definition ex_blank_title :: element where
  "ex_blank_title =
     Element ''record'' [] PNone [Element ''titles'' [] PNone [leaf ''title'' ''   '']]"

text \<open>
  A journal article that names its type in the record's \<^verbatim>\<open>ref-type\<close> attribute:
  \<^verbatim>\<open><record ref-type="Journal Article"><titles><secondary-title>Nature
  </secondary-title></titles></record>\<close> (without the line break).
\<close>

definition ex_journal_attr :: element where
  "ex_journal_attr =
     Element ''record'' [(''ref-type'', PStr ''Journal Article'')] PNone
       [Element ''titles'' [] PNone [leaf ''secondary-title'' ''Nature'']]"

text \<open>The same article with the type in a \<^verbatim>\<open>ref-type\<close> element, and more fields.\<close>

definition ex_article :: element where
  "ex_article =
     Element ''record'' [] PNone
       [leaf ''rec-number'' ''42'',
        Element ''ref-type'' [(''name'', PStr ''Journal Article'')] (PStr ''17'') [],
        Element ''contributors'' [] PNone
          [Element ''authors'' [] PNone [leaf ''author'' ''Doe, J.'', leaf ''author'' ''Roe, R.'']],
        Element ''titles'' [] PNone
          [leaf ''title'' ''On Things'', leaf ''secondary-title'' ''Nature''],
        leaf ''volume'' ''7'',
        Element ''dates'' [] PNone [leaf ''year'' ''2020'']]"


definition ex_unknown :: element where
  "ex_unknown =
     Element ''record'' [] PNone
       [Element ''ref-type'' [(''name'', PStr ''Nonexistent Type'')] PNone [],
        Element ''titles'' [] PNone [leaf ''title'' ''T'']]"

text \<open>A record whose \<^verbatim>\<open>rec-number\<close> element is empty, and one where it holds a text
  with spaces around it.\<close>

definition ex_empty_key :: element where
  "ex_empty_key = Element ''record'' [] PNone [Element ''rec-number'' [] PNone []]"

definition ex_spaced_key :: element where
  "ex_spaced_key = Element ''record'' [] PNone [leaf ''rec-number'' '' 7a '']"

text \<open>A title written with two \<^verbatim>\<open>style\<close> elements, and the same title as direct text.\<close>

definition ex_styled_title :: element where
  "ex_styled_title =
     Element ''title'' [] PNone
       [Element ''style'' [] (PStr ''Deep '') [], Element ''style'' [] (PStr ''Learning'') []]"

definition ex_direct_title :: element where
  "ex_direct_title = leaf ''title'' ''Deep Learning''"

definition styled_off :: config where
  "styled_off = \<lparr>suppress_warnings = True, extract_styled_text = False\<rparr>"

text \<open>
  What the parser answers on the truncated document \<^verbatim>\<open><records><record>\<close>, for use
  as the parameter \<open>fromstring\<close>; every other string is taken as an empty
  \<^verbatim>\<open>records\<close> element.
\<close>

definition ex_fromstring :: "string \<Rightarrow> string + element" where
  "ex_fromstring s =
     (if s = ''<records><record>'' then Inl ''no element found: line 1, column 17''
      else Inr (Element ''records'' [] PNone []))"

section \<open>Properties\<close>

subsection \<open>Strings and joins\<close>

lemma strip_whitespace: "\<forall>c \<in> set s. py_isspace c \<Longrightarrow> strip s = []"
proof -
  assume "\<forall>c \<in> set s. py_isspace c"
  then have e: "dropWhile py_isspace s = []" by simp
  show ?thesis unfolding strip_def e by simp
qed

lemma join_empty_sep: "join [] ss = concat ss"
  by (induction "[]::string" ss rule: join.induct) auto

lemma all_str_strs: "all_str i (map PStr ss) = Inr ss"
  by (induction ss arbitrary: i) auto

lemma or_empty_text: "is_text x \<Longrightarrow> or_empty x = PStr (py_str (or_empty x))"
  by (cases x) (auto simp: is_text_def or_empty_def)

subsection \<open>Styled and direct text\<close>

lemma styled_value:
  assumes "extract_styled_text cfg" and "findall e [''style''] \<noteq> []"
    and "\<forall>s \<in> set (findall e [''style'']). is_text (el_text s)"
  shows "extract_text_from_styled_element cfg (Some e) = Inr (PStr (concat (style_texts e)))"
proof -
  have "map (\<lambda>style. or_empty (el_text style)) (findall e [''style''])
        = map PStr (style_texts e)"
    using assms(3) by (simp add: style_texts_def or_empty_text [symmetric])
  then show ?thesis
    using assms(1,2)
    by (simp add: extract_text_from_styled_element_def find_elem_def py_join_def
          all_str_strs join_empty_sep split: list.splits)
qed

lemma direct_value:
  assumes "\<not> extract_styled_text cfg \<or> findall e [''style''] = []"
  shows "extract_text_from_styled_element cfg (Some e) = Inr (or_empty (el_text e))"
  using assms by (auto simp: extract_text_from_styled_element_def find_elem_def)

subsection \<open>The two loops of the formatter\<close>

lemma required_loop_spec:
  "required_loop flds req (acc, miss) =
     (acc @ concat (map (\<lambda>f. case map_of flds f of Some v \<Rightarrow> field_line f v | None \<Rightarrow> []) req),
      miss @ filter (\<lambda>f. map_of flds f = None) req)"
  by (induction req arbitrary: acc miss) (auto split: option.splits)

lemma flexible_loop_spec:
  "flexible_loop req items acc =
     acc @ concat (map (\<lambda>(f, v). field_line f v) (filter (\<lambda>(f, v). f \<notin> set req) items))"
  by (induction items arbitrary: acc) auto

lemma format_fields_spec: "format_fields flds req = spec_field_lines flds req"
  unfolding format_fields_def spec_field_lines_def required_loop_spec flexible_loop_spec
    field_line_def
  by simp

lemma format_fields_empty: "format_fields [] req = []"
  by (simp add: format_fields_spec spec_field_lines_def)

subsection \<open>One record, and the loop over the records\<close>

lemma entry_key_spec: "entry_key record es = spec_entry_key record (length es)"
  by (auto simp: entry_key_def spec_entry_key_def split: option.splits pyobj.splits)

lemma extract_fields_fst:
  "fst (extract_fields_from_xml cfg record errs) = fst (extract_fields_from_xml cfg record [])"
  by (simp add: extract_fields_from_xml_def split: sum.splits)

lemma process_record_ok:
  "entry_type_get (entry_type_name record) = Inr ty \<Longrightarrow>
   process_record cfg i record (es, errs) =
     (es @ [''@'' @ ty @ ''{'' @ entry_key record es
            @ format_fields (fst (extract_fields_from_xml cfg record errs)) (get_required_fields ty)
            @ [CHR 0x0A] @ ''}''],
      snd (extract_fields_from_xml cfg record errs))"
  by (simp add: process_record_def split: prod.splits)


lemma process_record_length:
  "length (fst (process_record cfg i r (es, errs))) =
     length es + (if reaches_handler r then 0 else 1)"
  by (auto simp: process_record_def reaches_handler_def split: sum.splits prod.splits)

lemma convert_records_length:
  "length (fst (convert_records cfg i rs st)) =
     length (fst st) + length (filter (\<lambda>r. \<not> reaches_handler r) rs)"
proof (induction rs arbitrary: i st)
  case Nil
  then show ?case by simp
next
  case (Cons r rs)
  obtain es errs where st: "st = (es, errs)" by (cases st)
  show ?case
    using Cons.IH [of "Suc i" "process_record cfg i r st"]
      process_record_length [of cfg i r es errs]
    by (simp add: st)
qed

lemma convert_records_snoc:
  "convert_records cfg i (rs @ [r]) st =
     process_record cfg (i + length rs) r (convert_records cfg i rs st)"
  by (induction rs arbitrary: i st) auto

subsection \<open>Input that cannot be converted\<close>

text \<open>
  Claim C10. Called with something that is neither a string nor an element, the
  conversion returns the empty string and leaves exactly one error,
  \<^verbatim>\<open>Invalid XML data type\<close>. The function is total: nothing is raised.
\<close>

theorem invalid_data_type:
  "convert_to_bibtex fromstring cfg XmlOther = ([], [''Invalid XML data type''])"
  by (simp add: convert_to_bibtex_def)

text \<open>
  Claim C6. When the parser rejects the input string with a message, the conversion
  returns the empty string, and the error list is exactly one error that carries the
  parser's message; no entry is emitted.
\<close>

theorem malformed_xml:
  assumes "fromstring s = Inl msg"
  shows "convert_to_bibtex fromstring cfg (XmlStr s) = ([], [''Error parsing XML: '' @ msg])"
  using assms by (simp add: convert_to_bibtex_def)

theorem malformed_xml_witness:
  "ex_fromstring ''<records><record>'' = Inl ''no element found: line 1, column 17'' \<and>
   convert_to_bibtex ex_fromstring default_config (XmlStr ''<records><record>'') =
     ([], [''Error parsing XML: no element found: line 1, column 17''])"
proof -
  have h: "ex_fromstring ''<records><record>'' = Inl ''no element found: line 1, column 17''"
    by (simp add: ex_fromstring_def)
  show ?thesis
    using h malformed_xml [of ex_fromstring "''<records><record>''"
                              "''no element found: line 1, column 17''" default_config]
    by simp
qed

subsection \<open>The entry key\<close>

text \<open>
  Claim C9. A \<^verbatim>\<open>rec-number\<close> element whose text is empty (the empty string or
  \<^verbatim>\<open>None\<close>) gives the key a record without the element gets, \<^verbatim>\<open>ref<N>\<close>; a text
  that is not empty is the key as it stands, neither trimmed nor checked to be a
  number.
\<close>

theorem empty_rec_number_is_missing:
  "(find_elem record [''rec-number''] = Some key_elem \<and>
      (el_text key_elem = PStr [] \<or> el_text key_elem = PNone) \<and>
      find_elem record' [''rec-number''] = None
    \<longrightarrow> entry_key record es = entry_key record' es \<and>
        entry_key record es = ''ref'' @ str_nat (length es + 1))
   \<and> (find_elem record [''rec-number''] = Some key_elem \<and> el_text key_elem = PStr s \<and> s \<noteq> []
    \<longrightarrow> entry_key record es = s)"
  by (auto simp: entry_key_def)

theorem empty_rec_number_is_missing_witness:
  "entry_key ex_empty_key [] = entry_key ex_plain [] \<and> entry_key ex_empty_key [] = ''ref1'' \<and>
   entry_key ex_spaced_key [] = '' 7a ''"
proof -
  have e: "find_elem ex_empty_key [''rec-number''] = Some (Element ''rec-number'' [] PNone [])"
    by code_simp
  have p: "find_elem ex_plain [''rec-number''] = None"
    by code_simp
  have k: "find_elem ex_spaced_key [''rec-number''] = Some (leaf ''rec-number'' '' 7a '')"
    by code_simp
  have t: "el_text (leaf ''rec-number'' '' 7a '') = PStr '' 7a ''"
    by (simp add: leaf_def)
  have n: "str_nat (length ([]::string list) + 1) = ''1''"
    by code_simp
  have t0: "el_text (Element ''rec-number'' [] PNone []) = PNone"
    by simp
  have s: "'' 7a '' \<noteq> []"
    by simp
  from empty_rec_number_is_missing
         [of ex_empty_key "Element ''rec-number'' [] PNone []" ex_plain "[]"] e p t0
  have "entry_key ex_empty_key [] = entry_key ex_plain [] \<and>
        entry_key ex_empty_key [] = ''ref'' @ str_nat (length ([]::string list) + 1)"
    by blast
  moreover from empty_rec_number_is_missing
         [of ex_spaced_key "leaf ''rec-number'' '' 7a ''" _ "[]" "'' 7a ''"] k t s
  have "entry_key ex_spaced_key [] = '' 7a ''"
    by blast
  ultimately show ?thesis unfolding n by auto
qed

text \<open>
  Claim C5. The key of an entry is the text of the record's \<^verbatim>\<open>rec-number\<close> when
  there is one, and otherwise \<^verbatim>\<open>ref<N>\<close> with \<open>N\<close> one more than the number of
  entries produced before it: the records before it that reached the loop's handler
  are not counted, whatever the record's index.
\<close>

theorem entry_key_counts_produced_entries:
  assumes "entry_type_get (entry_type_name record) = Inr ty"
  shows "fst (convert_records cfg 0 (records @ [record]) ([], [])) =
           fst (convert_records cfg 0 records ([], [])) @
             [''@'' @ ty @ ''{''
              @ spec_entry_key record (length (filter (\<lambda>r. \<not> reaches_handler r) records))
              @ format_fields (fst (extract_fields_from_xml cfg record []))
                  (get_required_fields ty)
              @ [CHR 0x0A] @ ''}'']"
proof -
  obtain es errs where st: "convert_records cfg 0 records ([], []) = (es, errs)"
    by (cases "convert_records cfg 0 records ([], [])")
  have len: "length es = length (filter (\<lambda>r. \<not> reaches_handler r) records)"
    using convert_records_length [of cfg 0 records "([], [])"] by (simp add: st)
  have "convert_records cfg 0 (records @ [record]) ([], []) =
          process_record cfg (length records) record (es, errs)"
    by (simp add: convert_records_snoc st)
  then show ?thesis
    using process_record_ok [OF assms, of cfg "length records" es errs]
      extract_fields_fst [of cfg "record" errs]
    by (simp add: st entry_key_spec len)
qed

theorem entry_key_counts_produced_entries_witness:
  "entry_type_get (entry_type_name ex_plain) = Inr ''misc'' \<and>
   fst (convert_records default_config 0 ([ex_plain, ex_unhashable] @ [ex_plain]) ([], [])) =
     fst (convert_records default_config 0 [ex_plain, ex_unhashable] ([], [])) @
       [''@misc{ref2'' @ field_line ''title'' ''A'' @ [CHR 0x0A] @ ''}'']"
proof -
  have h: "entry_type_get (entry_type_name ex_plain) = Inr ''misc''"
    by code_simp
  have k: "spec_entry_key ex_plain
             (length (filter (\<lambda>r. \<not> reaches_handler r) [ex_plain, ex_unhashable])) = ''ref2''"
    by code_simp
  have b: "format_fields (fst (extract_fields_from_xml default_config ex_plain []))
             (get_required_fields ''misc'') = field_line ''title'' ''A''"
    by code_simp
  show ?thesis
    using h entry_key_counts_produced_entries
              [OF h, of default_config "[ex_plain, ex_unhashable]", unfolded k b]
    by simp
qed

subsection \<open>The entry type and the entry text\<close>

text \<open>
  Claim C7. The label of a record is the \<^verbatim>\<open>name\<close> attribute of its \<^verbatim>\<open>ref-type\<close>
  element, else the record's \<^verbatim>\<open>ref-type\<close> attribute, else \<^verbatim>\<open>Generic\<close>. A record
  whose label is not a key of the lookup table is not dropped: the loop appends one
  entry for it, tagged \<^verbatim>\<open>misc\<close>, and no error of its own.
\<close>

theorem unknown_label_gives_misc:
  "(find_elem record [''ref-type''] = Some ref_type_elem \<and>
      map_of (attrib ref_type_elem) ''name'' = Some v \<longrightarrow> entry_type_name record = v)
   \<and> ((find_elem record [''ref-type''] = None \<or>
        (find_elem record [''ref-type''] = Some ref_type_elem \<and>
         map_of (attrib ref_type_elem) ''name'' = None)) \<longrightarrow>
       entry_type_name record =
         (case map_of (attrib record) ''ref-type'' of Some w \<Rightarrow> w | None \<Rightarrow> PStr ''Generic''))
   \<and> (entry_type_name record = PStr label \<and> map_of entry_type_map label = None \<longrightarrow>
       process_record cfg i record (es, errs) =
         (es @ [''@misc{'' @ entry_key record es
                @ format_fields (fst (extract_fields_from_xml cfg record errs)) [''title'']
                @ [CHR 0x0A] @ ''}''],
          snd (extract_fields_from_xml cfg record errs)))"
proof -
  have "process_record cfg i record (es, errs) =
         (es @ [''@misc{'' @ entry_key record es
                @ format_fields (fst (extract_fields_from_xml cfg record errs)) [''title'']
                @ [CHR 0x0A] @ ''}''],
          snd (extract_fields_from_xml cfg record errs))"
    if "entry_type_name record = PStr label" and "map_of entry_type_map label = None"
  proof -
    have "entry_type_get (entry_type_name record) = Inr ''misc''"
      using that by simp
    from process_record_ok [OF this] show ?thesis
      by (simp add: get_required_fields_def required_fields_table_def)
  qed
  then show ?thesis
    by (auto simp: entry_type_name_def record_ref_type_def)
qed

theorem unknown_label_gives_misc_witness:
  "entry_type_name ex_unknown = PStr ''Nonexistent Type'' \<and>
   map_of entry_type_map ''Nonexistent Type'' = None \<and>
   process_record default_config 0 ex_unknown ([], []) =
     ([''@misc{ref1'' @ field_line ''title'' ''T'' @ [CHR 0x0A] @ ''}''], [])"
proof -
  have f: "find_elem ex_unknown [''ref-type''] =
             Some (Element ''ref-type'' [(''name'', PStr ''Nonexistent Type'')] PNone [])"
    by code_simp
  have a: "map_of (attrib (Element ''ref-type'' [(''name'', PStr ''Nonexistent Type'')] PNone []))
             ''name'' = Some (PStr ''Nonexistent Type'')"
    by simp
  have u: "map_of entry_type_map ''Nonexistent Type'' = None"
    by code_simp
  have k: "entry_key ex_unknown [] = ''ref1''"
    by code_simp
  have b: "format_fields (fst (extract_fields_from_xml default_config ex_unknown [])) [''title'']
             = field_line ''title'' ''T''"
    by code_simp
  have e: "snd (extract_fields_from_xml default_config ex_unknown []) = []"
    by code_simp
  note inst = unknown_label_gives_misc
               [of ex_unknown "Element ''ref-type'' [(''name'', PStr ''Nonexistent Type'')] PNone []"
                   "PStr ''Nonexistent Type''" "''Nonexistent Type''" default_config 0 "[]" "[]"]
  from inst f a have n: "entry_type_name ex_unknown = PStr ''Nonexistent Type''"
    by blast
  from inst n u have "process_record default_config 0 ex_unknown ([], []) =
         ([] @ [''@misc{'' @ entry_key ex_unknown []
                @ format_fields (fst (extract_fields_from_xml default_config ex_unknown []))
                    [''title'']
                @ [CHR 0x0A] @ ''}''],
          snd (extract_fields_from_xml default_config ex_unknown []))"
    by blast
  then show ?thesis unfolding k b e using n u by simp
qed

text \<open>
  Claim C8. For a record that produces an entry, the entry is the header
  \<^verbatim>\<open>@<type>{<key>\<close>; then, for each required field of the type that the FieldSet
  holds, in the order of the type's list, the line \<^verbatim>\<open>\n\t<field> = {<value>},\<close>;
  then the same line for every field of the FieldSet that is not required, in
  insertion order; then the closing \<^verbatim>\<open>\n}\<close>. A required field that is absent
  contributes no line. The formatter alone produces these lines for any FieldSet and
  any list of required fields.
\<close>

theorem entry_text_layout:
  assumes "entry_type_get (entry_type_name record) = Inr ty"
    and "extract_fields_from_xml cfg record errs = (flds, errs')"
  shows "process_record cfg i record (es, errs) =
           (es @ [''@'' @ ty @ ''{'' @ entry_key record es
                  @ concat (map (\<lambda>field. case map_of flds field of
                                    Some v \<Rightarrow> [CHR 0x0A, CHR 0x09] @ field @ '' = {'' @ v @ ''},''
                                  | None \<Rightarrow> [])
                              (get_required_fields ty))
                  @ concat (map (\<lambda>(field, v). [CHR 0x0A, CHR 0x09] @ field @ '' = {'' @ v @ ''},'')
                              (filter (\<lambda>(field, v). field \<notin> set (get_required_fields ty)) flds))
                  @ [CHR 0x0A] @ ''}''],
            errs')
         \<and> format_fields flds' required_fields =
             concat (map (\<lambda>field. case map_of flds' field of
                               Some v \<Rightarrow> [CHR 0x0A, CHR 0x09] @ field @ '' = {'' @ v @ ''},''
                             | None \<Rightarrow> [])
                         required_fields)
             @ concat (map (\<lambda>(field, v). [CHR 0x0A, CHR 0x09] @ field @ '' = {'' @ v @ ''},'')
                         (filter (\<lambda>(field, v). field \<notin> set required_fields) flds'))"
  using process_record_ok [OF assms(1), of cfg i es errs] assms(2)
  by (simp add: format_fields_spec spec_field_lines_def)

theorem entry_text_layout_witness:
  "entry_type_get (entry_type_name ex_article) = Inr ''article'' \<and>
   extract_fields_from_xml default_config ex_article [] =
     ([(''title'', ''On Things''), (''author'', ''Doe, J. and Roe, R.''), (''year'', ''2020''),
       (''journal'', ''Nature''), (''volume'', ''7'')], []) \<and>
   process_record default_config 0 ex_article ([], []) =
     ([''@article{42''
       @ [CHR 0x0A, CHR 0x09] @ ''author = {Doe, J. and Roe, R.},''
       @ [CHR 0x0A, CHR 0x09] @ ''title = {On Things},''
       @ [CHR 0x0A, CHR 0x09] @ ''journal = {Nature},''
       @ [CHR 0x0A, CHR 0x09] @ ''year = {2020},''
       @ [CHR 0x0A, CHR 0x09] @ ''volume = {7},''
       @ [CHR 0x0A] @ ''}''], [])"
proof -
  have h: "entry_type_get (entry_type_name ex_article) = Inr ''article''"
    by code_simp
  have x: "extract_fields_from_xml default_config ex_article [] =
     ([(''title'', ''On Things''), (''author'', ''Doe, J. and Roe, R.''), (''year'', ''2020''),
       (''journal'', ''Nature''), (''volume'', ''7'')], [])"
    by code_simp
  have k: "entry_key ex_article [] = ''42''"
    by code_simp
  have r: "get_required_fields ''article'' = [''author'', ''title'', ''journal'', ''year'']"
    by code_simp
  from entry_text_layout [OF h x, of 0 "[]", THEN conjunct1]
  show ?thesis
    unfolding k r using h x by simp
qed

subsection \<open>Styled text\<close>

text \<open>
  Claim C4. With the styled-text flag on, an element whose value is written in
  \<^verbatim>\<open>style\<close> sub-elements and an element without such sub-elements whose direct text
  is the concatenation of their texts give the same extracted value, and so the same
  FieldSet; with the flag off the \<^verbatim>\<open>style\<close> sub-elements are ignored and the
  element's own text is used. The texts are strings or \<^verbatim>\<open>None\<close>, as in a parsed
  document.
\<close>

theorem styled_text_equivalence:
  "(extract_styled_text cfg \<and> findall e1 [''style''] \<noteq> [] \<and>
    (\<forall>s \<in> set (findall e1 [''style'']). is_text (el_text s)) \<and>
    findall e2 [''style''] = [] \<and> el_text e2 = PStr (concat (style_texts e1))
    \<longrightarrow> extract_text_from_styled_element cfg (Some e1) = Inr (PStr (concat (style_texts e1))) \<and>
        extract_text_from_styled_element cfg (Some e2) = Inr (PStr (concat (style_texts e1))) \<and>
        (find_elem r1 path = Some e1 \<and> find_elem r2 path = Some e2 \<longrightarrow>
           scalar_field cfg r1 path name flds = scalar_field cfg r2 path name flds))
   \<and> (\<not> extract_styled_text cfg \<longrightarrow>
        extract_text_from_styled_element cfg (Some e) = Inr (or_empty (el_text e)))"
proof -
  have "scalar_field cfg r1 path name flds = scalar_field cfg r2 path name flds"
    if "extract_text_from_styled_element cfg (Some e1) = extract_text_from_styled_element cfg (Some e2)"
      and "find_elem r1 path = Some e1" and "find_elem r2 path = Some e2"
    using that by (simp add: scalar_field_def)
  then show ?thesis
    by (auto simp: styled_value direct_value or_empty_def simp del: findall.simps)
qed

theorem styled_text_equivalence_witness:
  "extract_text_from_styled_element default_config (Some ex_styled_title)
     = Inr (PStr ''Deep Learning'') \<and>
   extract_text_from_styled_element default_config (Some ex_direct_title)
     = Inr (PStr ''Deep Learning'') \<and>
   extract_text_from_styled_element styled_off (Some ex_styled_title) = Inr (PStr [])"
proof -
  have h: "extract_styled_text default_config \<and> findall ex_styled_title [''style''] \<noteq> [] \<and>
    (\<forall>s \<in> set (findall ex_styled_title [''style'']). is_text (el_text s)) \<and>
    findall ex_direct_title [''style''] = [] \<and>
    el_text ex_direct_title = PStr (concat (style_texts ex_styled_title))"
    by code_simp
  have c: "concat (style_texts ex_styled_title) = ''Deep Learning''"
    by code_simp
  have off: "\<not> extract_styled_text styled_off"
    by code_simp
  have d: "or_empty (el_text ex_styled_title) = PStr []"
    by code_simp
  from styled_text_equivalence [of default_config ex_styled_title ex_direct_title] h
  have "extract_text_from_styled_element default_config (Some ex_styled_title)
          = Inr (PStr (concat (style_texts ex_styled_title))) \<and>
        extract_text_from_styled_element default_config (Some ex_direct_title)
          = Inr (PStr (concat (style_texts ex_styled_title)))"
    by blast
  moreover from styled_text_equivalence [of styled_off _ _ _ _ _ _ _ ex_styled_title] off
  have "extract_text_from_styled_element styled_off (Some ex_styled_title)
          = Inr (or_empty (el_text ex_styled_title))"
    by blast
  ultimately show ?thesis unfolding c d by blast
qed

subsection \<open>Which statement of the pass stores which key\<close>

lemma map_of_dict_set:
  "map_of (dict_set k v flds) k' = (if k' = k then Some v else map_of flds k')"
  by (induction flds) auto

lemma scalar_field_within: "writes_within (scalar_field cfg r p n) [n]"
  by (auto simp: writes_within_def keeps_def scalar_field_def map_of_dict_set
           split: option.splits sum.splits if_splits)

lemma authors_field_within: "writes_within (authors_field cfg r) [''author'']"
  by (auto simp: writes_within_def keeps_def authors_field_def map_of_dict_set
           split: option.splits sum.splits if_splits)

lemma keywords_field_within: "writes_within (keywords_field cfg r) [''keywords'']"
  by (auto simp: writes_within_def keeps_def keywords_field_def map_of_dict_set Let_def
           split: option.splits sum.splits if_splits)

lemma secondary_title_field_within:
  "writes_within (secondary_title_field cfg r) [''journal'', ''booktitle'']"
  by (auto simp: writes_within_def keeps_def secondary_title_field_def map_of_dict_set
           split: option.splits sum.splits if_splits)

lemma extract_stmts_within: "list_all2 writes_within (extract_stmts cfg r) stmt_keys"
  by (simp add: extract_stmts_def stmt_keys_def scalar_field_within authors_field_within
        keywords_field_within secondary_title_field_within)

lemma run_stmts_keeps:
  "list_all2 writes_within ss kss \<Longrightarrow> k \<notin> set (concat kss) \<Longrightarrow> run_stmts ss f = Inr f'
   \<Longrightarrow> map_of f' k = map_of f k"
proof (induction ss kss arbitrary: f rule: list_all2_induct)
  case Nil
  then show ?case by simp
next
  case (Cons s ss ks kss)
  from Cons.prems obtain fa where fa: "s f = Inr fa" "run_stmts ss fa = Inr f'"
    by (auto split: sum.splits)
  have "keeps k s"
    using Cons.hyps(1) Cons.prems(1) by (simp add: writes_within_def)
  then have "map_of fa k = map_of f k"
    using fa(1) by (simp add: keeps_def)
  moreover have "map_of f' k = map_of fa k"
    using Cons.IH [OF _ fa(2)] Cons.prems(1) by simp
  ultimately show ?case by simp
qed

text \<open>
  When the keys of the statements are pairwise distinct, the value the pass leaves
  under a key is the value the one statement for that key leaves, run on a dict that
  holds under that key what the initial dict held.
\<close>

lemma run_stmts_slot:
  "list_all2 writes_within ss kss \<Longrightarrow> distinct (concat kss) \<Longrightarrow> run_stmts ss f = Inr f'
   \<Longrightarrow> (s, ks) \<in> set (zip ss kss) \<Longrightarrow> k \<in> set ks
   \<Longrightarrow> \<exists>f1 f2. s f1 = Inr f2 \<and> map_of f1 k = map_of f k \<and> map_of f' k = map_of f2 k"
proof (induction ss kss arbitrary: f rule: list_all2_induct)
  case Nil
  then show ?case by simp
next
  case (Cons s0 ss ks0 kss)
  from Cons.prems(2) obtain fa where fa: "s0 f = Inr fa" "run_stmts ss fa = Inr f'"
    by (auto split: sum.splits)
  from Cons.prems(3) consider (head) "s = s0" "ks = ks0" | (tail) "(s, ks) \<in> set (zip ss kss)"
    by auto
  then show ?case
  proof cases
    case head
    have "k \<notin> set (concat kss)"
      using Cons.prems(1,4) head by auto
    then have "map_of f' k = map_of fa k"
      using run_stmts_keeps [OF Cons.hyps(2) _ fa(2)] by simp
    then show ?thesis
      using fa(1) head by blast
  next
    case tail
    then have "ks \<in> set kss"
      by (meson set_zip_rightD)
    then have "k \<notin> set ks0"
      using Cons.prems(1,4) by auto
    then have "keeps k s0"
      using Cons.hyps(1) by (simp add: writes_within_def)
    then have eq: "map_of fa k = map_of f k"
      using fa(1) by (simp add: keeps_def)
    have "distinct (concat kss)"
      using Cons.prems(1) by simp
    from Cons.IH [OF this fa(2) tail Cons.prems(4)] show ?thesis
      using eq by auto
  qed
qed

lemma stmt_keys_distinct: "distinct (concat stmt_keys)"
  by (simp add: stmt_keys_def)

lemma scalar_slot:
  "(path, name) \<in> set scalar_fields_table \<Longrightarrow>
   (scalar_field cfg r path name, [name]) \<in> set (zip (extract_stmts cfg r) stmt_keys)"
  apply (simp add: scalar_fields_table_def)
  apply (elim disjE conjE)
  apply (simp_all add: extract_stmts_def stmt_keys_def)
  done

lemma authors_slot:
  "(authors_field cfg r, [''author'']) \<in> set (zip (extract_stmts cfg r) stmt_keys)"
  by (simp add: extract_stmts_def stmt_keys_def)

lemma keywords_slot:
  "(keywords_field cfg r, [''keywords'']) \<in> set (zip (extract_stmts cfg r) stmt_keys)"
  by (simp add: extract_stmts_def stmt_keys_def)

lemma secondary_slot:
  "(secondary_title_field cfg r, [''journal'', ''booktitle''])
     \<in> set (zip (extract_stmts cfg r) stmt_keys)"
  by (simp add: extract_stmts_def stmt_keys_def)

lemma slot_of_pass:
  assumes "run_stmts (extract_stmts cfg r) [] = Inr flds"
    and "(s, ks) \<in> set (zip (extract_stmts cfg r) stmt_keys)" and "k \<in> set ks"
  shows "\<exists>f1 f2. s f1 = Inr f2 \<and> map_of f1 k = None \<and> map_of flds k = map_of f2 k"
  using run_stmts_slot [OF extract_stmts_within stmt_keys_distinct assms(1) assms(2) assms(3)]
  by simp

subsection \<open>What the pass stores for absent, empty and blank text\<close>

lemma extract_fields_ok:
  "extract_fields_from_xml cfg r errs = (flds, errs) \<Longrightarrow>
   run_stmts (extract_stmts cfg r) [] = Inr flds"
  by (auto simp: extract_fields_from_xml_def split: sum.splits)

lemma extract_fields_cases:
  assumes "extract_fields_from_xml cfg r errs = (flds, errs')"
  shows "flds = [] \<or> run_stmts (extract_stmts cfg r) [] = Inr flds"
  using assms by (auto simp: extract_fields_from_xml_def split: sum.splits)

lemma scalar_absent:
  assumes "(path, name) \<in> set scalar_fields_table"
    and "extract_fields_from_xml cfg r errs = (flds, errs')"
    and "find_elem r path = None \<or>
         (\<exists>elem t. find_elem r path = Some elem \<and>
            extract_text_from_styled_element cfg (Some elem) = Inr t \<and> \<not> truthy t)"
  shows "map_of flds name = None"
proof -
  from extract_fields_cases [OF assms(2)] show ?thesis
  proof
    assume "flds = []"
    then show ?thesis by simp
  next
    assume run: "run_stmts (extract_stmts cfg r) [] = Inr flds"
    from slot_of_pass [OF run scalar_slot [OF assms(1)]] obtain f1 f2 where
      s: "scalar_field cfg r path name f1 = Inr f2" "map_of f1 name = None"
         "map_of flds name = map_of f2 name"
      by auto
    from s(1) assms(3) have "f2 = f1"
      by (auto simp: scalar_field_def)
    then show ?thesis
      using s by simp
  qed
qed

lemma scalar_present:
  assumes "(path, name) \<in> set scalar_fields_table"
    and "extract_fields_from_xml cfg r errs = (flds, errs)"
    and "find_elem r path = Some elem"
    and "extract_text_from_styled_element cfg (Some elem) = Inr (PStr s)" and "s \<noteq> []"
  shows "map_of flds name = Some (strip s)"
proof -
  have run: "run_stmts (extract_stmts cfg r) [] = Inr flds"
    using extract_fields_ok [OF assms(2)] .
  from slot_of_pass [OF run scalar_slot [OF assms(1)]] obtain f1 f2 where
    s: "scalar_field cfg r path name f1 = Inr f2" "map_of f1 name = None"
       "map_of flds name = map_of f2 name"
    by auto
  from s(1) assms(3,4,5) have "f2 = dict_set name (strip s) f1"
    by (auto simp: scalar_field_def)
  then show ?thesis
    using s by (simp add: map_of_dict_set)
qed

lemma collect_stripped_none:
  "\<forall>x \<in> set xs. \<exists>t. extract_text_from_styled_element cfg (Some x) = Inr t \<and> \<not> truthy t
   \<Longrightarrow> collect_stripped cfg xs = Inr []"
  by (induction xs) auto

lemma author_absent:
  assumes "extract_fields_from_xml cfg r errs = (flds, errs')"
    and "find_elem r [''contributors'', ''authors''] = None \<or>
         (\<exists>a. find_elem r [''contributors'', ''authors''] = Some a \<and>
            (\<forall>x \<in> set (findall a [''author'']).
               \<exists>t. extract_text_from_styled_element cfg (Some x) = Inr t \<and> \<not> truthy t))"
  shows "map_of flds ''author'' = None"
proof -
  from extract_fields_cases [OF assms(1)] show ?thesis
  proof
    assume "flds = []"
    then show ?thesis by simp
  next
    assume run: "run_stmts (extract_stmts cfg r) [] = Inr flds"
    from slot_of_pass [OF run authors_slot, of "''author''"] obtain f1 f2 where
      s: "authors_field cfg r f1 = Inr f2" "map_of f1 ''author'' = None"
         "map_of flds ''author'' = map_of f2 ''author''"
      by auto
    from s(1) assms(2) have "f2 = f1"
      by (auto simp: authors_field_def collect_stripped_none simp del: findall.simps)
    then show ?thesis
      using s by simp
  qed
qed

lemma keywords_absent:
  assumes "extract_fields_from_xml cfg r errs = (flds, errs')"
    and "\<forall>x \<in> set (findall r [''keywords'', ''keyword'']).
               \<exists>t. extract_text_from_styled_element cfg (Some x) = Inr t \<and> \<not> truthy t"
  shows "map_of flds ''keywords'' = None"
proof -
  from extract_fields_cases [OF assms(1)] show ?thesis
  proof
    assume "flds = []"
    then show ?thesis by simp
  next
    assume run: "run_stmts (extract_stmts cfg r) [] = Inr flds"
    from slot_of_pass [OF run keywords_slot, of "''keywords''"] obtain f1 f2 where
      s: "keywords_field cfg r f1 = Inr f2" "map_of f1 ''keywords'' = None"
         "map_of flds ''keywords'' = map_of f2 ''keywords''"
      by auto
    from s(1) have "f2 = f1"
      by (auto simp: keywords_field_def Let_def collect_stripped_none [OF assms(2)]
               simp del: findall.simps split: if_splits)
    then show ?thesis
      using s by simp
  qed
qed

lemma venue_absent:
  assumes "extract_fields_from_xml cfg r errs = (flds, errs')"
    and "find_elem r [''titles'', ''secondary-title''] = None \<or>
         (\<exists>elem t. find_elem r [''titles'', ''secondary-title''] = Some elem \<and>
            extract_text_from_styled_element cfg (Some elem) = Inr t \<and> \<not> truthy t)"
    and "k = ''journal'' \<or> k = ''booktitle''"
  shows "map_of flds k = None"
proof -
  from extract_fields_cases [OF assms(1)] show ?thesis
  proof
    assume "flds = []"
    then show ?thesis by simp
  next
    assume run: "run_stmts (extract_stmts cfg r) [] = Inr flds"
    have "k \<in> set [''journal'', ''booktitle'']"
      using assms(3) by auto
    from slot_of_pass [OF run secondary_slot this] obtain f1 f2 where
      s: "secondary_title_field cfg r f1 = Inr f2" "map_of f1 k = None"
         "map_of flds k = map_of f2 k"
      by auto
    from s(1) assms(2) have "f2 = f1"
      by (auto simp: secondary_title_field_def)
    then show ?thesis
      using s by simp
  qed
qed

text \<open>
  Claim C3, as the code has it. The pass tests the extracted text for emptiness
  before it strips it. So for every field: an absent element, or an extracted text
  that is empty, stores nothing under the field. For a single-valued field, an
  extracted text that is not empty is stored stripped whenever the pass does not raise;
  a text of whitespace only is then stored as the empty string.
\<close>

theorem empty_text_not_stored:
  assumes "extract_fields_from_xml cfg record errs = (flds, errs')"
  shows "(\<forall>(path, name) \<in> set scalar_fields_table.
            (find_elem record path = None \<longrightarrow> map_of flds name = None) \<and>
            (\<forall>elem t. find_elem record path = Some elem \<and>
                 extract_text_from_styled_element cfg (Some elem) = Inr t \<and> \<not> truthy t
               \<longrightarrow> map_of flds name = None) \<and>
            (\<forall>elem s. find_elem record path = Some elem \<and>
                 extract_text_from_styled_element cfg (Some elem) = Inr (PStr s) \<and>
                 s \<noteq> [] \<and> errs' = errs
               \<longrightarrow> map_of flds name = Some (strip s) \<and>
                   ((\<forall>c \<in> set s. py_isspace c) \<longrightarrow> map_of flds name = Some [])))
       \<and> (find_elem record [''contributors'', ''authors''] = None \<or>
          (\<exists>a. find_elem record [''contributors'', ''authors''] = Some a \<and>
             (\<forall>x \<in> set (findall a [''author'']).
                \<exists>t. extract_text_from_styled_element cfg (Some x) = Inr t \<and> \<not> truthy t))
          \<longrightarrow> map_of flds ''author'' = None)
       \<and> ((\<forall>x \<in> set (findall record [''keywords'', ''keyword'']).
                \<exists>t. extract_text_from_styled_element cfg (Some x) = Inr t \<and> \<not> truthy t)
          \<longrightarrow> map_of flds ''keywords'' = None)
       \<and> (find_elem record [''titles'', ''secondary-title''] = None \<or>
          (\<exists>elem t. find_elem record [''titles'', ''secondary-title''] = Some elem \<and>
             extract_text_from_styled_element cfg (Some elem) = Inr t \<and> \<not> truthy t)
          \<longrightarrow> map_of flds ''journal'' = None \<and> map_of flds ''booktitle'' = None)"
proof (intro conjI)
  show "\<forall>(path, name) \<in> set scalar_fields_table.
            (find_elem record path = None \<longrightarrow> map_of flds name = None) \<and>
            (\<forall>elem t. find_elem record path = Some elem \<and>
                 extract_text_from_styled_element cfg (Some elem) = Inr t \<and> \<not> truthy t
               \<longrightarrow> map_of flds name = None) \<and>
            (\<forall>elem s. find_elem record path = Some elem \<and>
                 extract_text_from_styled_element cfg (Some elem) = Inr (PStr s) \<and>
                 s \<noteq> [] \<and> errs' = errs
               \<longrightarrow> map_of flds name = Some (strip s) \<and>
                   ((\<forall>c \<in> set s. py_isspace c) \<longrightarrow> map_of flds name = Some []))"
  proof (intro ballI, clarify, intro conjI allI impI)
    fix path name
    assume m: "(path, name) \<in> set scalar_fields_table"
    {
      assume "find_elem record path = None"
      then show "map_of flds name = None"
        using scalar_absent [OF m assms] by blast
    next
      fix elem t
      assume "find_elem record path = Some elem \<and>
              extract_text_from_styled_element cfg (Some elem) = Inr t \<and> \<not> truthy t"
      then show "map_of flds name = None"
        using scalar_absent [OF m assms] by blast
    next
      fix elem s
      assume a: "find_elem record path = Some elem \<and>
                 extract_text_from_styled_element cfg (Some elem) = Inr (PStr s) \<and>
                 s \<noteq> [] \<and> errs' = errs"
      then have e: "extract_fields_from_xml cfg record errs = (flds, errs)"
        using assms by simp
      from a show v: "map_of flds name = Some (strip s)"
        using scalar_present [OF m e] by blast
      assume "\<forall>c \<in> set s. py_isspace c"
      then show "map_of flds name = Some []"
        using v strip_whitespace by simp
    }
  qed
next
  show "find_elem record [''contributors'', ''authors''] = None \<or>
          (\<exists>a. find_elem record [''contributors'', ''authors''] = Some a \<and>
             (\<forall>x \<in> set (findall a [''author'']).
                \<exists>t. extract_text_from_styled_element cfg (Some x) = Inr t \<and> \<not> truthy t))
          \<longrightarrow> map_of flds ''author'' = None"
    using author_absent [OF assms] by blast
next
  show "(\<forall>x \<in> set (findall record [''keywords'', ''keyword'']).
                \<exists>t. extract_text_from_styled_element cfg (Some x) = Inr t \<and> \<not> truthy t)
          \<longrightarrow> map_of flds ''keywords'' = None"
    using keywords_absent [OF assms] by blast
next
  show "find_elem record [''titles'', ''secondary-title''] = None \<or>
          (\<exists>elem t. find_elem record [''titles'', ''secondary-title''] = Some elem \<and>
             extract_text_from_styled_element cfg (Some elem) = Inr t \<and> \<not> truthy t)
          \<longrightarrow> map_of flds ''journal'' = None \<and> map_of flds ''booktitle'' = None"
    using venue_absent [OF assms] by blast
qed

theorem empty_text_not_stored_witness:
  "map_of (fst (extract_fields_from_xml default_config ex_blank_title [])) ''title''
     = Some (strip ''   '') \<and>
   map_of (fst (extract_fields_from_xml default_config ex_blank_title [])) ''title'' = Some [] \<and>
   map_of (fst (extract_fields_from_xml default_config ex_blank_title [])) ''year'' = None"
proof -
  have h: "extract_fields_from_xml default_config ex_blank_title [] =
             (fst (extract_fields_from_xml default_config ex_blank_title []),
              snd (extract_fields_from_xml default_config ex_blank_title []))"
    by simp
  have e: "snd (extract_fields_from_xml default_config ex_blank_title []) = []"
    by code_simp
  have mt: "([''titles'', ''title''], ''title'') \<in> set scalar_fields_table"
    by (simp add: scalar_fields_table_def)
  have my: "([''dates'', ''year''], ''year'') \<in> set scalar_fields_table"
    by (simp add: scalar_fields_table_def)
  have f: "find_elem ex_blank_title [''titles'', ''title''] = Some (leaf ''title'' ''   '')"
    by code_simp
  have x: "extract_text_from_styled_element default_config (Some (leaf ''title'' ''   ''))
             = Inr (PStr ''   '')"
    by code_simp
  have w: "\<forall>c \<in> set ''   ''. py_isspace c"
    by code_simp
  have ne: "''   '' \<noteq> []"
    by simp
  have y: "find_elem ex_blank_title [''dates'', ''year''] = None"
    by code_simp
  note inst = empty_text_not_stored [OF h, THEN conjunct1, THEN bspec]
  from inst [OF mt, unfolded prod.case] f x w ne e
  have "map_of (fst (extract_fields_from_xml default_config ex_blank_title [])) ''title''
          = Some (strip ''   '') \<and>
        map_of (fst (extract_fields_from_xml default_config ex_blank_title [])) ''title''
          = Some []"
    by auto
  moreover from inst [OF my, unfolded prod.case] y
  have "map_of (fst (extract_fields_from_xml default_config ex_blank_title [])) ''year'' = None"
    by auto
  ultimately show ?thesis
    by auto
qed

text \<open>
  Claim C3 as stated fails: a title of three spaces is an extraction result of
  whitespace only, and the FieldSet maps \<^verbatim>\<open>title\<close> to the empty string.
\<close>

theorem whitespace_title_counterexample:
  "extract_text_from_styled_element default_config
     (find_elem ex_blank_title [''titles'', ''title'']) = Inr (PStr ''   '') \<and>
   list_all py_isspace ''   '' \<and>
   map_of (fst (extract_fields_from_xml default_config ex_blank_title [])) ''title'' = Some []"
  by code_simp

subsection \<open>Counting the entries and the errors of the loop\<close>

lemma extract_fields_raise:
  "run_stmts (extract_stmts cfg r) [] = Inl e \<Longrightarrow>
   extract_fields_from_xml cfg r errs = ([], errs @ [''Error extracting fields: '' @ str_exn e])"
  by (simp add: extract_fields_from_xml_def)



subsection \<open>The records of a well-formed document\<close>
























subsection \<open>The venue of a record without a \<^verbatim>\<open>ref-type\<close> element\<close>

text \<open>
  With a \<^verbatim>\<open>name\<close> attribute on the record's \<^verbatim>\<open>ref-type\<close> element the secondary
  title is routed as the comment in the code says.
\<close>

lemma secondary_title_routed:
  assumes "find_elem r [''titles'', ''secondary-title''] = Some st"
    and "extract_text_from_styled_element cfg (Some st) = Inr (PStr s)" and "s \<noteq> []"
    and "find_elem r [''ref-type''] = Some rt" and "map_of (attrib rt) ''name'' = Some v"
  shows "secondary_title_field cfg r flds =
           Inr (dict_set (if v = PStr ''Journal Article'' then ''journal'' else ''booktitle'')
                  (strip s) flds)"
  using assms by (simp add: secondary_title_field_def)

text \<open>
  Claim C2. The claim holds of the label, wherever it comes from. The code takes the
  label of the venue from the \<^verbatim>\<open>ref-type\<close> element alone: for a journal article that
  names its type in the record's \<^verbatim>\<open>ref-type\<close> attribute the label is
  \<^verbatim>\<open>Journal Article\<close>, the entry is an \<^verbatim>\<open>article\<close>, and the secondary title is
  stored under neither \<^verbatim>\<open>journal\<close> nor \<^verbatim>\<open>booktitle\<close>.
\<close>

theorem secondary_title_dropped:
  "entry_type_name ex_journal_attr = PStr ''Journal Article'' \<and>
   extract_text_from_styled_element default_config
     (find_elem ex_journal_attr [''titles'', ''secondary-title'']) = Inr (PStr ''Nature'') \<and>
   extract_fields_from_xml default_config ex_journal_attr [] = ([], []) \<and>
   convert_root default_config (ex_doc [ex_journal_attr]) =
     (''@article{ref1'' @ [CHR 0x0A] @ ''}'', [])"
  by code_simp

end
